theory Spec2Isabelle
  imports Main "HOL-Library.Signed_Division" "HOL-Library.Word"
begin

section \<open>Go primitives used by the CRL updater\<close>

text \<open>
  The updater (\<^verbatim>\<open>crl/updater/updater.go\<close>) computes with three Go types whose
  arithmetic is part of its behaviour:
  \<^item> \<^verbatim>\<open>int64\<close>: modelled as an \<open>int\<close> kept in \<open>[-2^63, 2^63)\<close>; every operation that
    can leave the range is followed by the two's complement wrap-around \<open>i64\<close>.
    Go's \<^verbatim>\<open>/\<close> and \<^verbatim>\<open>%\<close> truncate towards zero (\<open>sdiv\<close>, \<open>smod\<close>) and panic on a
    zero divisor (\<open>None\<close>).
  \<^item> \<^verbatim>\<open>time.Duration\<close>: an \<^verbatim>\<open>int64\<close> count of nanoseconds.
  \<^item> \<^verbatim>\<open>time.Time\<close>: an instant, modelled as the (unbounded) number of nanoseconds
    since the zero value \<^verbatim>\<open>time.Time{}\<close> (January 1, year 1, 00:00:00 UTC). Go stores
    the seconds in an \<^verbatim>\<open>int64\<close>, so the instants it can represent reach far beyond
    anything a \<^verbatim>\<open>Duration\<close> can span. \<^verbatim>\<open>t.Sub(u)\<close> returns a \<^verbatim>\<open>Duration\<close> and
    saturates: "if the result exceeds the maximum (or minimum) value that can be stored
    in a Duration, the maximum (or minimum) duration will be returned".
\<close>

type_synonym int64 = int
type_synonym Duration = int
type_synonym Time = int

definition i64 :: "int \<Rightarrow> int64" where
  "i64 x = (x + 2 ^ 63) mod 2 ^ 64 - 2 ^ 63"

definition go_rem :: "int64 \<Rightarrow> int64 \<Rightarrow> int64 option" where
  "go_rem a b = (if b = 0 then None else Some (i64 (a smod b)))"

definition go_quo :: "int64 \<Rightarrow> int64 \<Rightarrow> int64 option" where
  "go_quo a b = (if b = 0 then None else Some (i64 (a sdiv b)))"

definition maxDuration :: Duration where
  "maxDuration = 2 ^ 63 - 1"

definition minDuration :: Duration where
  "minDuration = - (2 ^ 63)"

definition Hour :: Duration where
  "Hour = 3600 * 1000000000"

definition dur_add :: "Duration \<Rightarrow> Duration \<Rightarrow> Duration" where
  "dur_add a b = i64 (a + b)"

definition dur_neg :: "Duration \<Rightarrow> Duration" where
  "dur_neg a = i64 (- a)"

definition zeroTime :: Time where
  "zeroTime = 0"

definition Time_Sub :: "Time \<Rightarrow> Time \<Rightarrow> Duration" where
  "Time_Sub t u =
     (if t - u > maxDuration then maxDuration
      else if t - u < minDuration then minDuration
      else t - u)"

definition Time_Add :: "Time \<Rightarrow> Duration \<Rightarrow> Time" where
  "Time_Add t d = t + d"

definition Time_Before :: "Time \<Rightarrow> Time \<Rightarrow> bool" where
  "Time_Before t u = (t < u)"

text \<open>
  \<^verbatim>\<open>t.UnixNano()\<close>: nanoseconds since January 1, 1970 UTC as an \<^verbatim>\<open>int64\<close>; the Unix
  epoch lies 62135596800 seconds after the zero \<^verbatim>\<open>Time\<close>. Outside the years
  1678 to 2262 the \<^verbatim>\<open>int64\<close> wraps.
\<close>

definition unixEpoch :: Time where
  "unixEpoch = 62135596800 * 1000000000"

definition UnixNano :: "Time \<Rightarrow> int64" where
  "UnixNano t = i64 (t - unixEpoch)"

section \<open>The updater and its configuration\<close>

text \<open>
  \<^verbatim>\<open>issuance.Certificate\<close> is reduced to what the updater reads: the name ID that
  keys the issuer map, the subject common name used as a metrics label, and the public
  key that CRL signatures are checked against.
\<close>

record Certificate =
  NameID :: int64
  CommonName :: string
  PublicKey :: nat

text \<open>
  The configuration fields of \<^verbatim>\<open>crlUpdater\<close>. The clients, the metrics, the logger
  and the clock of the Go struct are the environment of the model (section
  "Orchestration").
\<close>

record crlUpdater =
  issuers :: "int64 \<rightharpoonup> Certificate"
  numShards :: int64
  lookbackPeriod :: Duration
  lookforwardPeriod :: Duration
  updatePeriod :: Duration

section \<open>The shard window calculator\<close>

text \<open>
  \<^verbatim>\<open>getWindowForShard\<close>, statement by statement. \<open>None\<close> is the run-time panic
  "integer divide by zero", raised by \<^verbatim>\<open>shardID % cu.numShards\<close> when there are no
  shards and by \<^verbatim>\<open>... % windowWidth.Nanoseconds()\<close> when the window is empty.
\<close>

definition getWindowForShard :: "crlUpdater \<Rightarrow> Time \<Rightarrow> int64 \<Rightarrow> (Time \<times> Time) option" where
  "getWindowForShard cu atTime shardID0 =
     (case go_rem shardID0 (numShards cu) of
        None \<Rightarrow> None
      | Some shardID \<Rightarrow>
          let windowWidth = dur_add (lookbackPeriod cu) (lookforwardPeriod cu) in
          (case go_rem (Time_Sub atTime zeroTime) windowWidth of
             None \<Rightarrow> None
           | Some atTimeOffset \<Rightarrow>
               let zeroStart = Time_Add atTime (dur_neg atTimeOffset) in
               (case go_quo windowWidth (numShards cu) of
                  None \<Rightarrow> None
                | Some shardWidth \<Rightarrow>
                    let shardOffset = i64 (shardID * shardWidth);
                        shardStart = Time_Add zeroStart shardOffset;
                        shardEnd = Time_Add shardStart shardWidth
                    in if Time_Before shardEnd (Time_Add atTime (dur_neg (lookbackPeriod cu)))
                       then Some (Time_Add shardStart windowWidth, Time_Add shardEnd windowWidth)
                       else Some (shardStart, shardEnd))))"

text \<open>
  The configurations that \<^verbatim>\<open>getWindowForShard\<close> is analysed under: at least one
  shard, non-negative lookback and lookforward periods whose sum is a positive
  \<^verbatim>\<open>Duration\<close> (no \<^verbatim>\<open>int64\<close> overflow) and a multiple of the number of shards.
\<close>

definition window_config_ok :: "crlUpdater \<Rightarrow> bool" where
  "window_config_ok cu =
     (1 \<le> numShards cu \<and> 0 \<le> lookbackPeriod cu \<and> 0 \<le> lookforwardPeriod cu \<and>
      0 < lookbackPeriod cu + lookforwardPeriod cu \<and>
      lookbackPeriod cu + lookforwardPeriod cu \<le> maxDuration \<and>
      (lookbackPeriod cu + lookforwardPeriod cu) mod numShards cu = 0)"

text \<open>The instants of the half-open interval returned for a shard.\<close>

definition shardInterval :: "crlUpdater \<Rightarrow> Time \<Rightarrow> int64 \<Rightarrow> Time set" where
  "shardInterval cu atTime shardID =
     (case getWindowForShard cu atTime shardID of
        None \<Rightarrow> {}
      | Some (shardStart, shardEnd) \<Rightarrow> {shardStart ..< shardEnd})"

text \<open>The observation window \<open>[atTime - lookback, atTime + lookforward)\<close>.\<close>

definition observationWindow :: "crlUpdater \<Rightarrow> Time \<Rightarrow> Time set" where
  "observationWindow cu atTime =
     {atTime - lookbackPeriod cu ..< atTime + lookforwardPeriod cu}"

section \<open>Construction\<close>

text \<open>
  \<^verbatim>\<open>NewUpdater\<close>: the issuer map is built first (a later certificate with the same
  name ID replaces an earlier one), then the three checks run in the source's order.
  Each \<^verbatim>\<open>fmt.Errorf\<close> is a constructor carrying the values the message prints. At
  the third check \<^verbatim>\<open>numShards\<close> is at least 1, so \<^verbatim>\<open>%\<close> cannot panic, and the
  remainder of two \<^verbatim>\<open>int64\<close> values is an \<^verbatim>\<open>int64\<close>. Registering the two metrics
  and storing the clients, the logger and the clock do not touch the configuration;
  the registry is taken to accept both collectors and the issuer pointers to be non-nil.
\<close>

datatype config_error =
    NonPositiveShards int64
  | UpdatePeriodTooLong Duration
  | WindowNotDivisible int64 int64

definition NewUpdater ::
  "Certificate list \<Rightarrow> int64 \<Rightarrow> Duration \<Rightarrow> Duration \<Rightarrow> Duration \<Rightarrow> config_error + crlUpdater" where
  "NewUpdater issuerList numShards0 lookback lookforward updatePeriod0 =
     (let issuersByNameID =
            foldl (\<lambda>m issuer. m(NameID issuer \<mapsto> issuer)) Map.empty issuerList
      in if numShards0 < 1 then Inl (NonPositiveShards numShards0)
         else if updatePeriod0 \<ge> 7 * 24 * Hour then Inl (UpdatePeriodTooLong updatePeriod0)
         else let window = dur_add lookback lookforward
              in if window smod numShards0 \<noteq> 0
                 then Inl (WindowNotDivisible window numShards0)
                 else Inr \<lparr>issuers = issuersByNameID, numShards = numShards0,
                            lookbackPeriod = lookback, lookforwardPeriod = lookforward,
                            updatePeriod = updatePeriod0\<rparr>)"

section \<open>Orchestration\<close>

text \<open>
  The updater talks to two streaming services and to the X.509 library. One run of
  \<^verbatim>\<open>tickIssuer\<close> is deterministic once the answers of these collaborators are fixed,
  so the environment is a script: for the shard of an issuer it says what each call
  returns. An error is the text of the Go \<^verbatim>\<open>error\<close>; streams are finite, ended by
  \<^verbatim>\<open>io.EOF\<close> (\<open>None\<close>) or by an error.
\<close>

type_synonym byte = "8 word"

record CRLEntry =
  Serial :: string
  Reason :: int
  RevokedAt :: int64

record GetRevokedCertsRequest =
  IssuerNameID :: int64
  ExpiresAfter :: int64
  ExpiresBefore :: int64
  RevokedBefore :: int64

datatype GenerateCRLRequest =
    Metadata int64 int64
  | Entry CRLEntry

text \<open>What \<^verbatim>\<open>x509.ParseDERCRL\<close> returns, as far as the updater looks at it.\<close>

record CertificateList =
  SignedBy :: nat
  RevokedCertificates :: nat

record shard_io =
  GetRevokedCerts_err :: "string option"
  saStream_entries :: "CRLEntry list"
  saStream_end :: "string option"
  GenerateCRL_err :: "string option"
  caStream_Send_err :: "nat \<Rightarrow> string option"
  caStream_chunks :: "byte list list"
  caStream_end :: "string option"

record environment =
  shard_script :: "int64 \<Rightarrow> int64 \<Rightarrow> shard_io"
  ParseDERCRL :: "byte list \<Rightarrow> string + CertificateList"
  CheckCRLSignature :: "Certificate \<Rightarrow> CertificateList \<Rightarrow> string option"

text \<open>
  What the updater does to the outside while it processes one shard, in order: the
  request that opens the data-source stream, the opening of the generation stream, each
  message sent on it, the bytes handed to the parser, the signature check, and the debug
  line that reports a complete CRL (issuer common name, shard, number of entries).
\<close>

datatype event =
    SA_GetRevokedCerts GetRevokedCertsRequest
  | CA_GenerateCRL
  | CA_Send GenerateCRLRequest
  | X509_ParseDERCRL "byte list"
  | Issuer_CheckCRLSignature int64 CertificateList
  | Log_Debugf string int64 nat

text \<open>The eight \<^verbatim>\<open>return fmt.Errorf(...)\<close> of \<^verbatim>\<open>tickIssuer\<close>, by the stage that failed.\<close>

datatype stage =
    ConnectSA | ConnectCA | SendMetadata | RetrieveEntry
  | SendEntry | ReadBytes | ParseBytes | ValidateSignature

datatype tick_error = ShardError stage int64 string

text \<open>
  The first inner loop: \<^verbatim>\<open>saStream.Recv()\<close> until \<^verbatim>\<open>io.EOF\<close>, each entry sent to
  the generation stream at once. \<open>i\<close> counts the \<^verbatim>\<open>Send\<close> calls made on the stream so
  far.
\<close>

fun relayEntries ::
  "shard_io \<Rightarrow> nat \<Rightarrow> CRLEntry list \<Rightarrow> event list \<times> (stage \<times> string) option" where
  "relayEntries w i [] =
     (case saStream_end w of
        None \<Rightarrow> ([], None)
      | Some err \<Rightarrow> ([], Some (RetrieveEntry, err)))"
| "relayEntries w i (entry # rest) =
     (case caStream_Send_err w i of
        Some err \<Rightarrow> ([CA_Send (Entry entry)], Some (SendEntry, err))
      | None \<Rightarrow>
          (case relayEntries w (Suc i) rest of
             (evs, r) \<Rightarrow> (CA_Send (Entry entry) # evs, r)))"

text \<open>
  The second inner loop: \<^verbatim>\<open>crlBytes = append(crlBytes, out.Chunk...)\<close> for every
  chunk received.
\<close>

fun collectChunks :: "byte list \<Rightarrow> byte list list \<Rightarrow> byte list" where
  "collectChunks crlBytes [] = crlBytes"
| "collectChunks crlBytes (chunk # rest) = collectChunks (crlBytes @ chunk) rest"

text \<open>
  The body of the shard loop. The result is \<open>None\<close> when the window computation
  panics; otherwise the events of the iteration and the stage that failed, if one did.
\<close>

definition processShard ::
  "crlUpdater \<Rightarrow> environment \<Rightarrow> Time \<Rightarrow> int64 \<Rightarrow> Certificate \<Rightarrow> int64 \<Rightarrow>
     (event list \<times> (stage \<times> string) option) option" where
  "processShard cu env atTime nameID issuer shardID =
     (case getWindowForShard cu atTime shardID of
        None \<Rightarrow> None
      | Some (expiresAfter, expiresBefore) \<Rightarrow>
          let w = shard_script env nameID shardID;
              ev1 = [SA_GetRevokedCerts
                       \<lparr>IssuerNameID = nameID,
                        ExpiresAfter = UnixNano expiresAfter,
                        ExpiresBefore = UnixNano expiresBefore,
                        RevokedBefore = UnixNano atTime\<rparr>]
          in (case GetRevokedCerts_err w of
                Some err \<Rightarrow> Some (ev1, Some (ConnectSA, err))
              | None \<Rightarrow>
                  let ev2 = ev1 @ [CA_GenerateCRL]
                  in (case GenerateCRL_err w of
                        Some err \<Rightarrow> Some (ev2, Some (ConnectCA, err))
                      | None \<Rightarrow>
                          let ev3 = ev2 @ [CA_Send (Metadata nameID (UnixNano atTime))]
                          in (case caStream_Send_err w 0 of
                                Some err \<Rightarrow> Some (ev3, Some (SendMetadata, err))
                              | None \<Rightarrow>
          (case relayEntries w 1 (saStream_entries w) of
             (evs, Some failure) \<Rightarrow> Some (ev3 @ evs, Some failure)
           | (evs, None) \<Rightarrow>
               (case caStream_end w of
                  Some err \<Rightarrow> Some (ev3 @ evs, Some (ReadBytes, err))
                | None \<Rightarrow>
                    let crlBytes = collectChunks [] (caStream_chunks w);
                        ev4 = ev3 @ evs @ [X509_ParseDERCRL crlBytes]
                    in (case ParseDERCRL env crlBytes of
                          Inl err \<Rightarrow> Some (ev4, Some (ParseBytes, err))
                        | Inr crl \<Rightarrow>
                            let ev5 = ev4 @ [Issuer_CheckCRLSignature nameID crl]
                            in (case CheckCRLSignature env issuer crl of
                                  Some err \<Rightarrow> Some (ev5, Some (ValidateSignature, err))
                                | None \<Rightarrow>
                                    Some (ev5 @ [Log_Debugf (CommonName issuer) shardID
                                                   (RevokedCertificates crl)],
                                          None)))))))))"

text \<open>
  The shard loop \<^verbatim>\<open>for shardID := int64(0); shardID < cu.numShards; shardID++\<close>. Every
  failure returns from \<^verbatim>\<open>tickIssuer\<close> at once. The list holds, for each iteration that
  ran, the shard and its events.
\<close>

function tickShards ::
  "crlUpdater \<Rightarrow> environment \<Rightarrow> Time \<Rightarrow> int64 \<Rightarrow> Certificate \<Rightarrow> int64 \<Rightarrow>
     ((int64 \<times> event list) list \<times> tick_error option) option" where
  "tickShards cu env atTime nameID issuer shardID =
     (if shardID < numShards cu
      then (case processShard cu env atTime nameID issuer shardID of
              None \<Rightarrow> None
            | Some (evs, Some (stg, err)) \<Rightarrow>
                Some ([(shardID, evs)], Some (ShardError stg shardID err))
            | Some (evs, None) \<Rightarrow>
                (case tickShards cu env atTime nameID issuer (shardID + 1) of
                   None \<Rightarrow> None
                 | Some (runs, r) \<Rightarrow> Some ((shardID, evs) # runs, r)))
      else Some ([], None))"
  by pat_completeness auto
termination
  by (relation "measure (\<lambda>(cu, env, atTime, nameID, issuer, shardID). nat (numShards cu - shardID))")
     auto

declare tickShards.simps [simp del]

text \<open>
  \<^verbatim>\<open>tickIssuer\<close>. The deferred function reads \<^verbatim>\<open>cu.issuers[id].Subject.CommonName\<close>
  on every path, so a \<open>nameID\<close> (the source's \<^verbatim>\<open>id\<close>) that is not in the map ends
  in a nil-pointer panic
  (\<open>None\<close>). Otherwise the outcome is the shards that ran, the error returned, and the
  labels \<open>(issuer, result)\<close> under which the deferred function observes the elapsed time.
\<close>

record issuer_tick =
  shard_runs :: "(int64 \<times> event list) list"
  returned :: "tick_error option"
  observed :: "string \<times> string"

definition tickIssuer ::
  "crlUpdater \<Rightarrow> environment \<Rightarrow> Time \<Rightarrow> int64 \<Rightarrow> issuer_tick option" where
  "tickIssuer cu env atTime nameID =
     (case issuers cu nameID of
        None \<Rightarrow> None
      | Some issuer \<Rightarrow>
          (case tickShards cu env atTime nameID issuer 0 of
             None \<Rightarrow> None
           | Some (runs, err) \<Rightarrow>
               Some \<lparr>shard_runs = runs, returned = err,
                     observed = (CommonName issuer,
                                 if err = None then ''success'' else ''failed'')\<rparr>))"



section \<open>Concrete configurations\<close>

text \<open>
  Five shards, no lookback and a lookforward period of ten units of \<open>u\<close> nanoseconds
  each: the shard width is two units.
\<close>

definition tenUnitUpdater :: "Duration \<Rightarrow> crlUpdater" where
  "tenUnitUpdater u =
     \<lparr>issuers = Map.empty, numShards = 5, lookbackPeriod = 0,
      lookforwardPeriod = 10 * u, updatePeriod = Hour\<rparr>"

text \<open>January 1, 2022, 00:00:00 UTC (Unix time 1640995200).\<close>

definition date2022 :: Time where
  "date2022 = unixEpoch + 1640995200 * 1000000000"

text \<open>
  Two issuers, three revoked-certificate records, and two byte sequences: an arbitrary
  fixed one, and the encoding that the scenarios' parser reads as an empty CRL.
\<close>

definition issuerA :: Certificate where
  "issuerA = \<lparr>NameID = 1, CommonName = ''Issuer A'', PublicKey = 11\<rparr>"

definition issuerB :: Certificate where
  "issuerB = \<lparr>NameID = 2, CommonName = ''Issuer B'', PublicKey = 22\<rparr>"

definition entry1 :: CRLEntry where
  "entry1 = \<lparr>Serial = ''01'', Reason = 0, RevokedAt = 1600000000000000000\<rparr>"

definition entry2 :: CRLEntry where
  "entry2 = \<lparr>Serial = ''02'', Reason = 1, RevokedAt = 1610000000000000000\<rparr>"

definition entry3 :: CRLEntry where
  "entry3 = \<lparr>Serial = ''03'', Reason = 4, RevokedAt = 1620000000000000000\<rparr>"

definition fixedBytes :: "byte list" where
  "fixedBytes = [48, 130, 1, 35]"

definition emptyCRLBytes :: "byte list" where
  "emptyCRLBytes = [48, 0]"

text \<open>
  A shard whose services answer without error: no entries, one chunk holding the empty
  CRL.
\<close>

definition quietShard :: shard_io where
  "quietShard =
     \<lparr>GetRevokedCerts_err = None, saStream_entries = [], saStream_end = None,
      GenerateCRL_err = None, caStream_Send_err = (\<lambda>i. None),
      caStream_chunks = [emptyCRLBytes], caStream_end = None\<rparr>"

text \<open>A signature check that accepts a CRL signed by the issuer's key and nothing else.\<close>

definition keyCheck :: "Certificate \<Rightarrow> CertificateList \<Rightarrow> string option" where
  "keyCheck issuer crl =
     (if SignedBy crl = PublicKey issuer then None else Some ''signature mismatch'')"

text \<open>
  The end-to-end scenario: one issuer and two shards. The data source yields three
  records for shard 0 and none for shard 1; the generation service emits the fixed bytes
  for shard 0 (in two chunks) and the empty CRL for shard 1; the fixed bytes parse as a
  CRL signed by a key that is not the issuer's, the empty CRL as one signed by the issuer.
\<close>

definition twoShardUpdater :: crlUpdater where
  "twoShardUpdater =
     \<lparr>issuers = [1 \<mapsto> issuerA], numShards = 2, lookbackPeriod = 0,
      lookforwardPeriod = 10, updatePeriod = Hour\<rparr>"

definition endToEnd :: environment where
  "endToEnd =
     \<lparr>shard_script = (\<lambda>nameID shardID.
        if shardID = 0
        then quietShard\<lparr>saStream_entries := [entry1, entry2, entry3],
                         caStream_chunks := [[48, 130], [1, 35]]\<rparr>
        else quietShard),
      ParseDERCRL = (\<lambda>crlBytes.
        if crlBytes = fixedBytes then Inr \<lparr>SignedBy = 99, RevokedCertificates = 3\<rparr>
        else if crlBytes = emptyCRLBytes then Inr \<lparr>SignedBy = 11, RevokedCertificates = 0\<rparr>
        else Inl ''malformed CRL''),
      CheckCRLSignature = keyCheck\<rparr>"

text \<open>
  The failure-isolation scenario: two issuers and three shards. The data-source stream
  of shard 1 of issuer A breaks after one entry; every other call succeeds.
\<close>

definition threeShardUpdater :: crlUpdater where
  "threeShardUpdater =
     \<lparr>issuers = [1 \<mapsto> issuerA, 2 \<mapsto> issuerB], numShards = 3, lookbackPeriod = 0,
      lookforwardPeriod = 9, updatePeriod = Hour\<rparr>"

definition brokenRead :: environment where
  "brokenRead =
     \<lparr>shard_script = (\<lambda>nameID shardID.
        if nameID = 1 \<and> shardID = 1
        then quietShard\<lparr>saStream_entries := [entry1],
                         saStream_end := Some ''transport is closing''\<rparr>
        else if nameID = 2 \<and> shardID = 0
        then quietShard\<lparr>saStream_entries := [entry2, entry3]\<rparr>
        else quietShard),
      ParseDERCRL = (\<lambda>crlBytes.
        if crlBytes = emptyCRLBytes then Inr \<lparr>SignedBy = 0, RevokedCertificates = 0\<rparr>
        else Inl ''malformed CRL''),
      CheckCRLSignature = (\<lambda>issuer crl. None)\<rparr>"

section \<open>Arithmetic of the window calculator\<close>

lemma i64_id: "- (2 ^ 63) \<le> x \<Longrightarrow> x < 2 ^ 63 \<Longrightarrow> i64 x = x"
  by (simp add: i64_def)

lemma smod_nonneg: "0 \<le> a \<Longrightarrow> 0 < b \<Longrightarrow> (a::int) smod b = a mod b"
  by (simp add: signed_modulo_int_def sgn_if)

lemma sdiv_nonneg: "0 \<le> a \<Longrightarrow> 0 < b \<Longrightarrow> (a::int) sdiv b = a div b"
  by (simp add: signed_divide_int_def sgn_if)

lemma smod_bounds: "0 < b \<Longrightarrow> - b < (a::int) smod b \<and> a smod b < b"
  by (simp add: signed_modulo_int_def sgn_if) (smt (verit) pos_mod_bound pos_mod_sign abs_of_pos)

text \<open>
  Under a valid configuration and for a shard in range no \<^verbatim>\<open>int64\<close> operation of
  \<^verbatim>\<open>getWindowForShard\<close> wraps and no division panics: the function computes the
  candidate chunk of the cycle that \<^verbatim>\<open>atTime\<close> minus its offset starts, and moves it
  one window width forward when it ends before the left edge of the window.
\<close>

lemma getWindowForShard_unfold:
  assumes ok: "window_config_ok cu" and k0: "0 \<le> k" and kn: "k < numShards cu"
  shows "getWindowForShard cu t k =
           Some (let W = lookbackPeriod cu + lookforwardPeriod cu;
                     sw = W div numShards cu;
                     s = t - (Time_Sub t zeroTime smod W) + k * sw;
                     e = s + sw
                 in if e < t - lookbackPeriod cu then (s + W, e + W) else (s, e))"
proof -
  define n where "n = numShards cu"
  define lb where "lb = lookbackPeriod cu"
  define lf where "lf = lookforwardPeriod cu"
  define W where "W = lb + lf"
  define sw where "sw = W div n"
  define off where "off = Time_Sub t zeroTime smod W"
  from ok have n1: "1 \<le> n" and lb0: "0 \<le> lb" and lf0: "0 \<le> lf" and W0: "0 < W"
    and Wmax: "W < 2 ^ 63" and dv: "W mod n = 0"
    by (simp_all add: window_config_ok_def n_def lb_def lf_def W_def maxDuration_def)
  have Wsw: "W = n * sw" using mult_div_mod_eq[of n W] dv by (simp add: sw_def)
  have sw0: "0 < sw" using W0 n1 Wsw by (smt (verit) mult_le_0_iff zero_less_mult_iff)
  have nW: "n \<le> W" using Wsw sw0 n1 by (smt (verit) mult_le_cancel_left1)
  have r1: "go_rem k n = Some k"
    using k0 kn n1 nW Wmax by (simp add: go_rem_def smod_nonneg n_def i64_id)
  have r2: "dur_add lb lf = W"
    using W0 Wmax by (simp add: dur_add_def W_def i64_id)
  have offb: "- W < off \<and> off < W" unfolding off_def using smod_bounds[OF W0] by blast
  have r3: "go_rem (Time_Sub t zeroTime) W = Some off"
    using W0 offb Wmax by (simp add: go_rem_def off_def[symmetric] i64_id)
  have r4: "dur_neg off = - off"
    using offb Wmax by (simp add: dur_neg_def i64_id)
  have swW: "sw \<le> W" using Wsw sw0 n1 by (smt (verit) mult_le_cancel_right1)
  have "i64 sw = sw" using sw0 swW Wmax by (simp add: i64_id)
  then have r5: "go_quo W n = Some sw"
    using W0 n1 by (simp add: go_quo_def sdiv_nonneg sw_def[symmetric])
  have "k * sw \<le> (n - 1) * sw" using kn sw0 by (simp add: n_def)
  then have "k * sw + sw \<le> W" using Wsw by (simp add: algebra_simps)
  then have ksw: "0 \<le> k * sw \<and> k * sw < W" using k0 sw0 by simp
  have r6: "i64 (k * sw) = k * sw" using ksw Wmax by (simp add: i64_id)
  have r7: "dur_neg lb = - lb" using lb0 lf0 Wmax by (simp add: dur_neg_def i64_id W_def)
  show ?thesis
    unfolding getWindowForShard_def n_def[symmetric] lb_def[symmetric] lf_def[symmetric]
    by (simp add: r1 r2 r3 r4 r5 r6 r7 Let_def Time_Add_def Time_Before_def W_def[symmetric] sw_def[symmetric] off_def[symmetric])
qed

lemma Time_Sub_zero: "0 \<le> t \<Longrightarrow> t \<le> maxDuration \<Longrightarrow> Time_Sub t zeroTime = t"
  by (simp add: Time_Sub_def zeroTime_def minDuration_def maxDuration_def)

lemma tenUnit_ok: "0 < u \<Longrightarrow> 10 * u \<le> maxDuration \<Longrightarrow> window_config_ok (tenUnitUpdater u)"
  by (simp add: window_config_ok_def tenUnitUpdater_def)

lemma tenUnit_window:
  assumes u: "0 < u" "10 * u \<le> maxDuration" and t: "0 \<le> t" "t \<le> maxDuration"
    and k: "0 \<le> k" "k < 5"
  shows "getWindowForShard (tenUnitUpdater u) t k =
           Some (let s = t - t mod (10 * u) + k * (2 * u); e = s + 2 * u
                 in if e < t then (s + 10 * u, e + 10 * u) else (s, e))"
proof -
  have "(10 * u) div 5 = 2 * u" by simp
  moreover have "t smod (10 * u) = t mod (10 * u)" using t u by (simp add: smod_nonneg)
  ultimately show ?thesis
    using getWindowForShard_unfold[OF tenUnit_ok[OF u], of k t] k t
    by (simp add: Time_Sub_zero tenUnitUpdater_def Let_def)
qed

text \<open>The definitions that evaluate \<^verbatim>\<open>getWindowForShard\<close> on a concrete input.\<close>

lemmas window_eval =
  getWindowForShard_def go_rem_def go_quo_def i64_def dur_add_def dur_neg_def
  Time_Sub_def Time_Add_def Time_Before_def zeroTime_def maxDuration_def minDuration_def
  signed_modulo_int_def signed_divide_int_def tenUnitUpdater_def

lemma le_div_iff_mult_le:
  fixes sw :: int
  assumes "0 < sw"
  shows "(m \<le> y div sw) = (m * sw \<le> y)"
proof
  assume "m \<le> y div sw"
  then have "m * sw \<le> (y div sw) * sw" using assms by (simp add: mult_right_mono)
  also have "\<dots> \<le> y" using assms by (metis div_mult_mod_eq le_add_same_cancel1 pos_mod_sign)
  finally show "m * sw \<le> y" .
next
  assume a: "m * sw \<le> y"
  show "m \<le> y div sw"
  proof (rule ccontr)
    assume "\<not> m \<le> y div sw"
    then have "y div sw + 1 \<le> m" by simp
    then have "(y div sw + 1) * sw \<le> m * sw" using assms by (simp only: mult_right_mono less_imp_le)
    moreover have "y < (y div sw + 1) * sw"
    proof -
      have "y = (y div sw) * sw + y mod sw" by simp
      moreover have "y mod sw < sw" using assms by simp
      ultimately have "y < (y div sw) * sw + sw" by linarith
      then show ?thesis by (simp add: algebra_simps)
    qed
    ultimately show False using a by simp
  qed
qed

lemma div_eq_between:
  fixes sw :: int
  assumes "0 < sw" "q * sw \<le> y" "y < q * sw + sw"
  shows "y div sw = q"
proof -
  have "q \<le> y div sw" using assms by (simp add: le_div_iff_mult_le)
  moreover have "\<not> (q + 1 \<le> y div sw)" using assms by (simp add: le_div_iff_mult_le algebra_simps)
  ultimately show ?thesis by simp
qed





section \<open>Lemmas about the orchestration\<close>

lemma relayEntries_ok:
  "relayEntries w i es = (evs, None) \<Longrightarrow> evs = map (\<lambda>entry. CA_Send (Entry entry)) es"
  by (induction es arbitrary: i evs) (auto split: option.splits prod.splits)

lemma collectChunks_concat: "collectChunks crlBytes chunks = crlBytes @ concat chunks"
  by (induction chunks arbitrary: crlBytes) simp_all

lemma processShard_success:
  assumes "processShard cu env atTime nameID issuer shardID = Some (evs, None)"
  shows "\<exists>shardStart shardEnd crl.
           getWindowForShard cu atTime shardID = Some (shardStart, shardEnd) \<and>
           ParseDERCRL env (concat (caStream_chunks (shard_script env nameID shardID))) = Inr crl \<and>
           evs = [SA_GetRevokedCerts
                    \<lparr>IssuerNameID = nameID, ExpiresAfter = UnixNano shardStart,
                     ExpiresBefore = UnixNano shardEnd, RevokedBefore = UnixNano atTime\<rparr>,
                  CA_GenerateCRL,
                  CA_Send (Metadata nameID (UnixNano atTime))]
                 @ map (\<lambda>entry. CA_Send (Entry entry))
                     (saStream_entries (shard_script env nameID shardID))
                 @ [X509_ParseDERCRL (concat (caStream_chunks (shard_script env nameID shardID))),
                    Issuer_CheckCRLSignature nameID crl,
                    Log_Debugf (CommonName issuer) shardID (RevokedCertificates crl)]"
proof -
  define w where "w = shard_script env nameID shardID"
  obtain shardStart shardEnd where
    win: "getWindowForShard cu atTime shardID = Some (shardStart, shardEnd)"
    using assms by (cases "getWindowForShard cu atTime shardID") (auto simp add: processShard_def)
  obtain revs rres where rel: "relayEntries w 1 (saStream_entries w) = (revs, rres)"
    by (cases "relayEntries w 1 (saStream_entries w)") auto
  have steps: "GetRevokedCerts_err w = None \<and> GenerateCRL_err w = None \<and>
               caStream_Send_err w 0 = None \<and> rres = None \<and> caStream_end w = None"
    using assms win rel unfolding processShard_def Let_def w_def[symmetric]
    by (simp split: option.splits)
  then have revs: "revs = map (\<lambda>entry. CA_Send (Entry entry)) (saStream_entries w)"
    using rel relayEntries_ok by blast
  obtain crl where crl: "ParseDERCRL env (concat (caStream_chunks w)) = Inr crl"
    using assms win rel steps unfolding processShard_def Let_def w_def[symmetric]
    by (cases "ParseDERCRL env (concat (caStream_chunks w))")
       (simp_all add: collectChunks_concat)
  have "CheckCRLSignature env issuer crl = None"
    using assms win rel steps crl unfolding processShard_def Let_def w_def[symmetric]
    by (simp add: collectChunks_concat split: option.splits)
  then have "evs = [SA_GetRevokedCerts
                    \<lparr>IssuerNameID = nameID, ExpiresAfter = UnixNano shardStart,
                     ExpiresBefore = UnixNano shardEnd, RevokedBefore = UnixNano atTime\<rparr>,
                  CA_GenerateCRL,
                  CA_Send (Metadata nameID (UnixNano atTime))]
                 @ map (\<lambda>entry. CA_Send (Entry entry)) (saStream_entries w)
                 @ [X509_ParseDERCRL (concat (caStream_chunks w)),
                    Issuer_CheckCRLSignature nameID crl,
                    Log_Debugf (CommonName issuer) shardID (RevokedCertificates crl)]"
    using assms win rel steps crl revs unfolding processShard_def Let_def w_def[symmetric]
    by (simp add: collectChunks_concat)
  then show ?thesis using win crl unfolding w_def by blast
qed

lemma processShard_total:
  "getWindowForShard cu atTime shardID \<noteq> None \<Longrightarrow>
   processShard cu env atTime nameID issuer shardID \<noteq> None"
  unfolding processShard_def Let_def
  by (simp split: option.splits prod.splits sum.splits)

lemma tickShards_done:
  "\<not> shardID < numShards cu \<Longrightarrow> tickShards cu env atTime nameID issuer shardID = Some ([], None)"
  by (subst tickShards.simps) simp

lemma tickShards_panic:
  "shardID < numShards cu \<Longrightarrow> processShard cu env atTime nameID issuer shardID = None \<Longrightarrow>
   tickShards cu env atTime nameID issuer shardID = None"
  by (subst tickShards.simps) simp

lemma tickShards_failed:
  "shardID < numShards cu \<Longrightarrow>
   processShard cu env atTime nameID issuer shardID = Some (evs, Some (stg, err)) \<Longrightarrow>
   tickShards cu env atTime nameID issuer shardID
     = Some ([(shardID, evs)], Some (ShardError stg shardID err))"
  by (subst tickShards.simps) simp

lemma tickShards_next:
  "shardID < numShards cu \<Longrightarrow>
   processShard cu env atTime nameID issuer shardID = Some (evs, None) \<Longrightarrow>
   tickShards cu env atTime nameID issuer shardID
     = (case tickShards cu env atTime nameID issuer (shardID + 1) of
          None \<Rightarrow> None
        | Some (runs, r) \<Rightarrow> Some ((shardID, evs) # runs, r))"
  by (subst tickShards.simps) simp


lemma tickShards_member:
  "tickShards cu env atTime nameID issuer j = Some (runs, r) \<Longrightarrow> (k, evs) \<in> set runs \<Longrightarrow>
     processShard cu env atTime nameID issuer k = Some (evs, None) \<or>
     (\<exists>stg err. processShard cu env atTime nameID issuer k = Some (evs, Some (stg, err)) \<and>
                r = Some (ShardError stg k err))"
proof (induction cu env atTime nameID issuer j arbitrary: runs r rule: tickShards.induct)
  case (1 cu env atTime nameID issuer shardID)
  show ?case
  proof (cases "shardID < numShards cu")
    case False
    then show ?thesis using "1.prems" by (simp add: tickShards_done)
  next
    case True
    show ?thesis
    proof (cases "processShard cu env atTime nameID issuer shardID")
      case None
      then show ?thesis using "1.prems" True by (simp add: tickShards_panic)
    next
      case (Some p)
      obtain evs0 res where p: "p = (evs0, res)" by (cases p)
      show ?thesis
      proof (cases res)
        case (Some f)
        obtain stg err where f: "f = (stg, err)" by (cases f)
        have ps: "processShard cu env atTime nameID issuer shardID = Some (evs0, Some (stg, err))"
          using \<open>processShard cu env atTime nameID issuer shardID = Some p\<close> p Some f by simp
        show ?thesis using tickShards_failed[OF True ps] "1.prems" ps by auto
      next
        case None
        have ps: "processShard cu env atTime nameID issuer shardID = Some (evs0, None)"
          using \<open>processShard cu env atTime nameID issuer shardID = Some p\<close> p None by simp
        from tickShards_next[OF True ps] "1.prems"(1)
        obtain runs' where
          rec: "tickShards cu env atTime nameID issuer (shardID + 1) = Some (runs', r)"
          and runs: "runs = (shardID, evs0) # runs'"
          by (auto split: option.splits)
        show ?thesis
        proof (cases "(k, evs) = (shardID, evs0)")
          case True
          then show ?thesis using ps by simp
        next
          case False
          then have "(k, evs) \<in> set runs'" using "1.prems"(2) runs by auto
          then show ?thesis using "1.IH"[OF True ps refl refl rec] by simp
        qed
      qed
    qed
  qed
qed

lemma tickShards_total:
  "window_config_ok cu \<Longrightarrow> 0 \<le> j \<Longrightarrow>
   \<exists>runs r. tickShards cu env atTime nameID issuer j = Some (runs, r)"
proof (induction cu env atTime nameID issuer j rule: tickShards.induct)
  case (1 cu env atTime nameID issuer shardID)
  show ?case
  proof (cases "shardID < numShards cu")
    case False
    then show ?thesis by (simp add: tickShards_done)
  next
    case True
    have "getWindowForShard cu atTime shardID \<noteq> None"
      using getWindowForShard_unfold[OF "1.prems"(1) "1.prems"(2) True] by simp
    then obtain evs res where ps: "processShard cu env atTime nameID issuer shardID = Some (evs, res)"
      using processShard_total[of cu atTime shardID env nameID issuer] by auto
    show ?thesis
    proof (cases res)
      case (Some f)
      obtain stg err where f: "f = (stg, err)" by (cases f)
      show ?thesis using tickShards_failed[OF True] ps Some f by simp
    next
      case None
      have "\<exists>runs r. tickShards cu env atTime nameID issuer (shardID + 1) = Some (runs, r)"
        using "1.IH"[OF True ps[unfolded None] refl refl "1.prems"(1)] "1.prems"(2) by simp
      then show ?thesis using tickShards_next[OF True ps[unfolded None]] by auto
    qed
  qed
qed




lemma tickIssuer_total:
  "window_config_ok cu \<Longrightarrow> nameID \<in> dom (issuers cu) \<Longrightarrow>
   \<exists>r. tickIssuer cu env atTime nameID = Some r"
proof -
  assume ok: "window_config_ok cu" and d: "nameID \<in> dom (issuers cu)"
  then obtain issuer where i: "issuers cu nameID = Some issuer" by auto
  obtain runs r where "tickShards cu env atTime nameID issuer 0 = Some (runs, r)"
    using tickShards_total[OF ok, of 0 env atTime nameID issuer] by auto
  then show ?thesis using i by (simp add: tickIssuer_def)
qed



section \<open>Lemmas about construction\<close>

lemma smod_eq_0_iff_dvd: "((a::int) smod b = 0) = (b dvd a)"
proof -
  have "(a smod b = 0) = (\<bar>a\<bar> mod \<bar>b\<bar> = 0)"
    by (cases "a = 0") (simp_all add: signed_modulo_int_def sgn_if)
  also have "\<dots> = (\<bar>b\<bar> dvd \<bar>a\<bar>)" by (simp only: dvd_eq_mod_eq_0)
  also have "\<dots> = (b dvd a)" by simp
  finally show ?thesis .
qed

lemma issuersByNameID_dom:
  "dom (foldl (\<lambda>m issuer. m(NameID issuer \<mapsto> issuer)) m0 issuerList)
     = dom m0 \<union> NameID ` set issuerList"
  by (induction issuerList arbitrary: m0) auto

lemma issuersByNameID_lookup:
  "foldl (\<lambda>m issuer. m(NameID issuer \<mapsto> issuer)) m0 issuerList nameID = Some c \<Longrightarrow>
   m0 nameID = Some c \<or> (c \<in> set issuerList \<and> NameID c = nameID)"
proof (induction issuerList arbitrary: m0)
  case Nil
  then show ?case by simp
next
  case (Cons a issuerList)
  from Cons.prems have
    "foldl (\<lambda>m issuer. m(NameID issuer \<mapsto> issuer)) (m0(NameID a \<mapsto> a)) issuerList nameID = Some c"
    by (simp only: foldl_Cons)
  from Cons.IH[OF this]
  have "(m0(NameID a \<mapsto> a)) nameID = Some c \<or> (c \<in> set issuerList \<and> NameID c = nameID)" .
  then show ?case
  proof
    assume u: "(m0(NameID a \<mapsto> a)) nameID = Some c"
    show ?thesis
    proof (cases "nameID = NameID a")
      case True
      then have "c = a" using u by simp
      then show ?thesis using True by simp
    next
      case False
      then show ?thesis using u by simp
    qed
  next
    assume "c \<in> set issuerList \<and> NameID c = nameID"
    then show ?thesis by simp
  qed
qed

lemma NewUpdater_Inl_iff:
  "(\<exists>err. NewUpdater issuerList n lb lf up = Inl err)
     = (n < 1 \<or> 7 * 24 * Hour \<le> up \<or> \<not> n dvd dur_add lb lf)"
proof (cases "n < 1")
  case True
  then show ?thesis by (simp add: NewUpdater_def Let_def)
next
  case n: False
  show ?thesis
  proof (cases "7 * 24 * Hour \<le> up")
    case True
    then show ?thesis using n by (simp add: NewUpdater_def Let_def)
  next
    case up: False
    show ?thesis
    proof (cases "n dvd dur_add lb lf")
      case True
      then have "dur_add lb lf smod n = 0" using smod_eq_0_iff_dvd[of "dur_add lb lf" n] by blast
      then show ?thesis using n up True by (simp add: NewUpdater_def Let_def)
    next
      case False
      then have "dur_add lb lf smod n \<noteq> 0" using smod_eq_0_iff_dvd[of "dur_add lb lf" n] by blast
      then show ?thesis using n up False by (simp add: NewUpdater_def Let_def)
    qed
  qed
qed

lemma NewUpdater_Inr:
  assumes a: "NewUpdater issuerList n lb lf up = Inr cu"
  shows "cu = \<lparr>issuers = foldl (\<lambda>m issuer. m(NameID issuer \<mapsto> issuer)) Map.empty issuerList,
               numShards = n, lookbackPeriod = lb, lookforwardPeriod = lf,
               updatePeriod = up\<rparr>"
proof -
  have "\<not> n < 1" using a by (cases "n < 1") (simp_all add: NewUpdater_def Let_def)
  moreover have "\<not> 7 * 24 * Hour \<le> up"
    using a calculation by (cases "7 * 24 * Hour \<le> up") (simp_all add: NewUpdater_def Let_def)
  moreover have "dur_add lb lf smod n = 0"
    using a calculation by (cases "dur_add lb lf smod n = 0") (simp_all add: NewUpdater_def Let_def)
  ultimately show ?thesis using a by (simp add: NewUpdater_def Let_def)
qed


section \<open>Failure handling (claim C1)\<close>




section \<open>The end-to-end scenario (claim C2)\<close>

text \<open>
  C2 as stated fails: in the end-to-end scenario shard 0 fails its signature check and
  \<^verbatim>\<open>tickIssuer\<close> returns at once; shard 1 is not processed, so nothing is reported
  for it - although, processed on its own, it succeeds.
\<close>

theorem signature_failure_hides_second_shard:
  "map_option (\<lambda>r. map fst (shard_runs r)) (tickIssuer twoShardUpdater endToEnd date2022 1)
     = Some [0] \<and>
   map_option snd (processShard twoShardUpdater endToEnd date2022 1 issuerA 1) = Some None"
  by code_simp

text \<open>
  C2, amended. In the end-to-end scenario the orchestrator requests shard 0, sends the
  metadata and the three records in order, parses the fixed bytes, fails the signature
  check, returns the error "failed to validate signature for shard 0", and observes the
  issuer as "failed"; shard 1 is not attempted.
\<close>

theorem end_to_end_outcome:
  "tickIssuer twoShardUpdater endToEnd date2022 1 =
     Some \<lparr>shard_runs =
             [(0, [SA_GetRevokedCerts
                     \<lparr>IssuerNameID = 1, ExpiresAfter = 1640995200000000003,
                      ExpiresBefore = 1640995200000000008,
                      RevokedBefore = 1640995200000000000\<rparr>,
                   CA_GenerateCRL,
                   CA_Send (Metadata 1 1640995200000000000),
                   CA_Send (Entry entry1), CA_Send (Entry entry2), CA_Send (Entry entry3),
                   X509_ParseDERCRL fixedBytes,
                   Issuer_CheckCRLSignature 1 \<lparr>SignedBy = 99, RevokedCertificates = 3\<rparr>])],
           returned = Some (ShardError ValidateSignature 0 ''signature mismatch''),
           observed = (''Issuer A'', ''failed'')\<rparr>"
  by code_simp

section \<open>Overlap with the observation window (claim C3)\<close>

text \<open>
  C3 says that the interval returned for a shard always overlaps the observation window
  \<open>[atTime - lookback, atTime + lookforward)\<close> and is the earliest chunk of that shard
  to do so, which is also what the comment above \<^verbatim>\<open>getWindowForShard\<close> promises.
  The code moves a candidate forward only when its end is strictly before the left edge
  (\<^verbatim>\<open>shardEnd.Before(...)\<close>). With five shards, no lookback and a lookforward period
  of 10ns, at 12ns after the zero time the candidate of shard 0 is \<open>[10,12)\<close>; its
  exclusive end is the left edge of the window \<open>[12,22)\<close>, it is returned as it is, and
  it shares no instant with the window.
\<close>

theorem chunk_ending_at_window_start_is_returned:
  "getWindowForShard (tenUnitUpdater 1) 12 0 = Some (10, 12) \<and>
   observationWindow (tenUnitUpdater 1) 12 = {12 ..< 22} \<and>
   shardInterval (tenUnitUpdater 1) 12 0 \<inter> observationWindow (tenUnitUpdater 1) 12 = {}"
  by (simp add: shardInterval_def observationWindow_def window_eval)

section \<open>Stability (claim C4)\<close>




section \<open>Coverage (claim C5)\<close>

text \<open>
  C5 as stated fails: the chunks lie on a fixed grid and the window does not. With five
  shards, no lookback and a lookforward period of 10ns, at reference time 1 the shards
  are \<open>[0,2)\<close>, \<open>[2,4)\<close>, \<open>[4,6)\<close>, \<open>[6,8)\<close>, \<open>[8,10)\<close>: instant 0 is in shard 0 and
  not in the window \<open>[1,11)\<close>.
\<close>

theorem coverage_counterexample:
  "(\<Union>k\<in>{0..<numShards (tenUnitUpdater 1)}. shardInterval (tenUnitUpdater 1) 1 k)
     \<noteq> observationWindow (tenUnitUpdater 1) 1"
proof -
  have "(0::int) \<in> shardInterval (tenUnitUpdater 1) 1 0"
    by (simp add: shardInterval_def window_eval)
  moreover have "(0::int) \<in> {0..<numShards (tenUnitUpdater 1)}" by (simp add: tenUnitUpdater_def)
  ultimately have "(0::int) \<in> (\<Union>k\<in>{0..<numShards (tenUnitUpdater 1)}. shardInterval (tenUnitUpdater 1) 1 k)"
    by blast
  moreover have "(0::int) \<notin> observationWindow (tenUnitUpdater 1) 1"
    by (simp add: observationWindow_def tenUnitUpdater_def)
  ultimately show ?thesis by metis
qed

text \<open>
  C5, amended. For every reference time, each shard's interval is one shard width long,
  the intervals of two different shards are disjoint, and together they are exactly one
  interval \<open>[a, a + lookback + lookforward)\<close>, as wide as the window. When the left edge
  of the window is not before the start of the current cycle (always so without
  lookback at a time a \<^verbatim>\<open>Duration\<close> can measure), \<open>a\<close> is at most the left edge and
  less than one shard width before it - the covered interval misses at most the last
  shard width of the window.
\<close>

theorem shards_tile_one_window_width:
  assumes ok: "window_config_ok cu"
  shows "(\<forall>k\<in>{0..<numShards cu}. \<exists>s.
            getWindowForShard cu t k
              = Some (s, s + (lookbackPeriod cu + lookforwardPeriod cu) div numShards cu)) \<and>
         (\<forall>i\<in>{0..<numShards cu}. \<forall>k\<in>{0..<numShards cu}.
            i \<noteq> k \<longrightarrow> shardInterval cu t i \<inter> shardInterval cu t k = {}) \<and>
         (\<exists>a. (\<Union>k\<in>{0..<numShards cu}. shardInterval cu t k)
                = {a ..< a + (lookbackPeriod cu + lookforwardPeriod cu)} \<and>
              (lookbackPeriod cu
                 \<le> Time_Sub t zeroTime smod (lookbackPeriod cu + lookforwardPeriod cu)
               \<longrightarrow> a \<le> t - lookbackPeriod cu \<and>
                   t - lookbackPeriod cu
                     \<le> a + (lookbackPeriod cu + lookforwardPeriod cu) div numShards cu))"
proof -
  define n where "n = numShards cu"
  define lb where "lb = lookbackPeriod cu"
  define lf where "lf = lookforwardPeriod cu"
  define W where "W = lb + lf"
  define sw where "sw = W div n"
  define off where "off = Time_Sub t zeroTime smod W"
  define z where "z = t - off"
  define j0 where "j0 = (off - lb - 1) div sw"
  define S where "S k = z + k * sw + (if k < j0 then W else 0)" for k
  define a where "a = z + max 0 j0 * sw"
  from ok have n1: "1 \<le> n" and lb0: "0 \<le> lb" and W0: "0 < W" and dv: "W mod n = 0"
    by (simp_all add: window_config_ok_def n_def lb_def lf_def W_def)
  have Wsw: "W = n * sw" using mult_div_mod_eq[of n W] dv by (simp add: sw_def)
  have sw0: "0 < sw" using W0 n1 Wsw by (smt (verit) mult_le_0_iff zero_less_mult_iff)
  have offb: "- W < off \<and> off < W" unfolding off_def using smod_bounds[OF W0] by blast
  have shifted: "(z + k * sw + sw < t - lb) = (k < j0)" for k
  proof -
    have "(z + k * sw + sw < t - lb) = ((k + 1) * sw \<le> off - lb - 1)"
      by (auto simp add: z_def algebra_simps)
    also have "\<dots> = (k + 1 \<le> j0)" by (simp only: j0_def le_div_iff_mult_le[OF sw0])
    also have "\<dots> = (k < j0)" by auto
    finally show ?thesis .
  qed
  have win: "getWindowForShard cu t k = Some (S k, S k + sw)" if "0 \<le> k" "k < n" for k
  proof -
    have "getWindowForShard cu t k =
            Some (if z + k * sw + sw < t - lb
                  then (z + k * sw + W, z + k * sw + sw + W)
                  else (z + k * sw, z + k * sw + sw))"
      using getWindowForShard_unfold[OF ok that(1) that(2)[unfolded n_def], of t]
      unfolding Let_def n_def[symmetric] lb_def[symmetric] lf_def[symmetric]
        W_def[symmetric] sw_def[symmetric] off_def[symmetric] z_def[symmetric] .
    then show ?thesis by (simp add: shifted S_def)
  qed
  have ival: "shardInterval cu t k = {S k ..< S k + sw}" if "0 \<le> k" "k < n" for k
    using win[OF that] by (simp add: shardInterval_def)
  have j0sw: "j0 * sw \<le> off - lb - 1"
    using le_div_iff_mult_le[OF sw0, of j0 "off - lb - 1"] by (simp add: j0_def)
  have j0n: "j0 < n"
  proof -
    have "\<not> (n * sw \<le> off - lb - 1)" using offb lb0 Wsw by simp
    then have "\<not> (n \<le> j0)" by (simp add: j0_def le_div_iff_mult_le[OF sw0])
    then show ?thesis by simp
  qed
  have quot: "(x - z) div sw = k + (if k < j0 then n else 0)"
    if "0 \<le> k" "k < n" "x \<in> {S k ..< S k + sw}" for x k
  proof -
    have "(k + (if k < j0 then n else 0)) * sw = k * sw + (if k < j0 then W else 0)"
      by (simp add: Wsw algebra_simps)
    then show ?thesis
      using that(3) by (intro div_eq_between[OF sw0]) (simp_all add: S_def split: if_splits)
  qed
  have part1: "\<forall>k\<in>{0..<n}. \<exists>s. getWindowForShard cu t k = Some (s, s + sw)"
    using win by auto
  have part2: "\<forall>i\<in>{0..<n}. \<forall>k\<in>{0..<n}.
                 i \<noteq> k \<longrightarrow> shardInterval cu t i \<inter> shardInterval cu t k = {}"
  proof (intro ballI impI)
    fix i k assume i: "i \<in> {0..<n}" and k: "k \<in> {0..<n}" and ne: "i \<noteq> k"
    show "shardInterval cu t i \<inter> shardInterval cu t k = {}"
    proof (rule ccontr)
      assume "shardInterval cu t i \<inter> shardInterval cu t k \<noteq> {}"
      then obtain x where xi: "x \<in> shardInterval cu t i" and xk: "x \<in> shardInterval cu t k"
        by blast
      have "(x - z) div sw = i + (if i < j0 then n else 0)"
        using quot[of i x] i xi ival[of i] by simp
      moreover have "(x - z) div sw = k + (if k < j0 then n else 0)"
        using quot[of k x] k xk ival[of k] by simp
      ultimately show False using i k ne by (simp split: if_splits)
    qed
  qed
  have union: "(\<Union>k\<in>{0..<n}. shardInterval cu t k) = {a ..< a + W}"
  proof (intro set_eqI iffI)
    fix x assume "x \<in> (\<Union>k\<in>{0..<n}. shardInterval cu t k)"
    then obtain k where k: "0 \<le> k" "k < n" and x: "S k \<le> x" "x < S k + sw"
      using ival by auto
    define P where "P = max 0 j0 * sw"
    define Q where "Q = k * sw"
    have Q0: "0 \<le> Q" using k sw0 by (simp add: Q_def)
    have P0: "0 \<le> P" using sw0 by (simp add: P_def)
    have QW: "Q + sw \<le> W"
    proof -
      have "(k + 1) * sw \<le> n * sw"
        using k sw0 by (simp only: mult_right_mono less_imp_le zle_add1_eq_le)
      then show ?thesis by (simp add: Q_def Wsw algebra_simps)
    qed
    have aP: "a = z + P" by (simp add: a_def P_def)
    show "x \<in> {a ..< a + W}"
    proof (cases "k < j0")
      case True
      then have "P = j0 * sw" using k by (simp add: P_def)
      then have PW: "P < W" using j0sw offb lb0 by linarith
      have "(k + 1) * sw \<le> j0 * sw"
        using True sw0 by (simp only: mult_right_mono less_imp_le zle_add1_eq_le)
      then have "Q + sw \<le> P" using \<open>P = j0 * sw\<close> by (simp add: Q_def algebra_simps)
      moreover have "z + Q + W \<le> x" "x < z + Q + W + sw"
        using x True by (simp_all add: S_def Q_def)
      ultimately show ?thesis using PW Q0 unfolding aP by simp
    next
      case False
      then have "max 0 j0 \<le> k" using k by simp
      then have "max 0 j0 * sw \<le> k * sw" using sw0 by (simp only: mult_right_mono less_imp_le)
      then have "P \<le> Q" by (simp add: P_def Q_def)
      moreover have "z + Q \<le> x" "x < z + Q + sw"
        using x False by (simp_all add: S_def Q_def)
      ultimately show ?thesis using QW P0 unfolding aP by simp
    qed
  next
    fix x assume "x \<in> {a ..< a + W}"
    then have xa: "max 0 j0 * sw \<le> x - z" "x - z < max 0 j0 * sw + W" by (simp_all add: a_def)
    define q where "q = (x - z) div sw"
    have q1: "q * sw \<le> x - z" using le_div_iff_mult_le[OF sw0, of q "x - z"] by (simp add: q_def)
    have q2: "x - z < q * sw + sw"
    proof -
      have "\<not> ((q + 1) * sw \<le> x - z)"
        using le_div_iff_mult_le[OF sw0, of "q + 1" "x - z"] by (simp add: q_def)
      then show ?thesis by (simp add: algebra_simps)
    qed
    have qlo: "max 0 j0 \<le> q" using xa(1) by (simp add: q_def le_div_iff_mult_le[OF sw0])
    have qhi: "q < max 0 j0 + n"
    proof -
      have "\<not> ((max 0 j0 + n) * sw \<le> x - z)" using xa(2) by (simp add: Wsw algebra_simps)
      then have "\<not> (max 0 j0 + n \<le> q)" by (simp add: q_def le_div_iff_mult_le[OF sw0])
      then show ?thesis by simp
    qed
    show "x \<in> (\<Union>k\<in>{0..<n}. shardInterval cu t k)"
    proof (cases "q < n")
      case True
      have k: "0 \<le> q" "q < n" "\<not> q < j0" using qlo True by simp_all
      have "x \<in> {S q ..< S q + sw}" using q1 q2 k by (simp add: S_def)
      then have "x \<in> shardInterval cu t q" using ival[of q] k by simp
      moreover have "q \<in> {0..<n}" using k by simp
      ultimately show ?thesis by blast
    next
      case False
      define k where "k = q - n"
      have k: "0 \<le> k" "k < n" "k < j0" using False qhi j0n by (simp_all add: k_def)
      have "k * sw + W = q * sw" by (simp add: k_def Wsw algebra_simps)
      then have "x \<in> {S k ..< S k + sw}" using q1 q2 k by (simp add: S_def)
      then have "x \<in> shardInterval cu t k" using ival[of k] k by simp
      moreover have "k \<in> {0..<n}" using k by simp
      ultimately show ?thesis by blast
    qed
  qed
  have edge: "a \<le> t - lb \<and> t - lb \<le> a + sw" if "lb \<le> off"
  proof (cases "0 \<le> j0")
    case True
    have "\<not> ((j0 + 1) * sw \<le> off - lb - 1)"
      using le_div_iff_mult_le[OF sw0, of "j0 + 1" "off - lb - 1"] by (simp add: j0_def)
    then have "off - lb - 1 < j0 * sw + sw" by (simp add: algebra_simps)
    then show ?thesis using True j0sw by (simp add: a_def z_def)
  next
    case False
    then have "j0 + 1 \<le> 0" by simp
    then have "(j0 + 1) * sw \<le> 0 * sw" using sw0 by (simp only: mult_right_mono less_imp_le)
    moreover have "\<not> ((j0 + 1) * sw \<le> off - lb - 1)"
      using le_div_iff_mult_le[OF sw0, of "j0 + 1" "off - lb - 1"] by (simp add: j0_def)
    ultimately have "off - lb \<le> 0" by simp
    then show ?thesis using False that sw0 by (simp add: a_def z_def)
  qed
  show ?thesis
    unfolding n_def[symmetric] lb_def[symmetric] lf_def[symmetric] W_def[symmetric]
      sw_def[symmetric] off_def[symmetric]
    using part1 part2 union edge by blast
qed


theorem shards_tile_one_window_width_witness:
  "window_config_ok (tenUnitUpdater 1) \<and>
   (\<exists>a. (\<Union>k\<in>{0..<5}. shardInterval (tenUnitUpdater 1) 1 k) = {a ..< a + 10} \<and>
        a \<le> 1 \<and> 1 \<le> a + 2)"
proof -
  have ok: "window_config_ok (tenUnitUpdater 1)"
    by (simp add: window_config_ok_def tenUnitUpdater_def maxDuration_def)
  have off: "lookbackPeriod (tenUnitUpdater 1)
               \<le> Time_Sub 1 zeroTime
                    smod (lookbackPeriod (tenUnitUpdater 1) + lookforwardPeriod (tenUnitUpdater 1))"
    by (simp add: tenUnitUpdater_def Time_Sub_def zeroTime_def maxDuration_def minDuration_def
        signed_modulo_int_def)
  from shards_tile_one_window_width[OF ok, of 1] off
  obtain a where
    "(\<Union>k\<in>{0..<numShards (tenUnitUpdater 1)}. shardInterval (tenUnitUpdater 1) 1 k)
       = {a ..< a + (lookbackPeriod (tenUnitUpdater 1) + lookforwardPeriod (tenUnitUpdater 1))}"
    "a \<le> 1 - lookbackPeriod (tenUnitUpdater 1)"
    "1 - lookbackPeriod (tenUnitUpdater 1)
       \<le> a + (lookbackPeriod (tenUnitUpdater 1) + lookforwardPeriod (tenUnitUpdater 1))
               div numShards (tenUnitUpdater 1)"
    by blast
  then have "(\<Union>k\<in>{0..<5}. shardInterval (tenUnitUpdater 1) 1 k) = {a ..< a + 10} \<and>
             a \<le> 1 \<and> 1 \<le> a + 2"
    by (simp add: tenUnitUpdater_def)
  then show ?thesis using ok by blast
qed

section \<open>Concrete scenarios (claim C6)\<close>

text \<open>
  C6. With no lookback, a lookforward period of ten units and five shards, times counted
  from the zero \<^verbatim>\<open>Time\<close>: at reference time 0 shard \<open>k\<close> is \<open>[2k, 2k+2)\<close>, that is
  \<open>[0,2)\<close>, \<open>[2,4)\<close>, \<open>[4,6)\<close>, \<open>[6,8)\<close>, \<open>[8,10)\<close>; at reference time 11 shard 0 is
  \<open>[10,12)\<close>, not shifted, and so are the other four shards; and at any reference time
  a candidate chunk that ends before \<open>t - lookback\<close> is returned shifted forward by the
  full window width of ten units, any other candidate is returned as it is. The unit is
  any positive number \<open>u\<close> of nanoseconds for which eleven units fit a \<^verbatim>\<open>Duration\<close>.
\<close>

theorem concrete_ten_unit_windows:
  assumes "0 < u" and "11 * u \<le> maxDuration"
  shows "(\<forall>k\<in>{0..4}. getWindowForShard (tenUnitUpdater u) zeroTime k
                        = Some (2 * k * u, 2 * k * u + 2 * u)) \<and>
         (\<forall>k\<in>{0..4}. getWindowForShard (tenUnitUpdater u) (11 * u) k
                        = Some (10 * u + 2 * k * u, 12 * u + 2 * k * u)) \<and>
         (\<forall>t k. 0 \<le> t \<and> t \<le> maxDuration \<and> 0 \<le> k \<and> k < 5 \<longrightarrow>
            (let s = t - t mod (10 * u) + k * (2 * u); e = s + 2 * u
             in getWindowForShard (tenUnitUpdater u) t k
                  = Some (if e < t - 0 then (s + 10 * u, e + 10 * u) else (s, e))))"
proof -
  have u10: "10 * u \<le> maxDuration" using assms by simp
  have m11: "(11 * u) mod (10 * u) = u"
  proof -
    have "(11 * u) mod (10 * u) = (u + 10 * u) mod (10 * u)" by (simp add: algebra_simps)
    also have "\<dots> = u mod (10 * u)" by (simp only: mod_add_self2)
    also have "\<dots> = u" using assms by simp
    finally show ?thesis .
  qed
  have a: "getWindowForShard (tenUnitUpdater u) zeroTime k = Some (2 * k * u, 2 * k * u + 2 * u)"
    if "k \<in> {0..4}" for k
  proof -
    define x where "x = k * u"
    have x0: "0 \<le> x" using that assms by (simp add: x_def)
    have eq: "k * (2 * u) = 2 * x" "2 * k * u = 2 * x" by (simp_all add: x_def)
    show ?thesis
      using tenUnit_window[OF assms(1) u10, of 0 k] that x0 assms
      by (simp add: zeroTime_def maxDuration_def Let_def eq)
  qed
  have b: "getWindowForShard (tenUnitUpdater u) (11 * u) k = Some (10 * u + 2 * k * u, 12 * u + 2 * k * u)"
    if "k \<in> {0..4}" for k
  proof -
    define x where "x = k * u"
    have x0: "0 \<le> x" using that assms by (simp add: x_def)
    have eq: "k * (2 * u) = 2 * x" "2 * k * u = 2 * x" by (simp_all add: x_def)
    show ?thesis
      using tenUnit_window[OF assms(1) u10, of "11 * u" k] that x0 assms
      by (simp add: m11 Let_def eq)
  qed
  have c: "let s = t - t mod (10 * u) + k * (2 * u); e = s + 2 * u
             in getWindowForShard (tenUnitUpdater u) t k
                  = Some (if e < t - 0 then (s + 10 * u, e + 10 * u) else (s, e))"
    if "0 \<le> t \<and> t \<le> maxDuration \<and> 0 \<le> k \<and> k < 5" for t k
    using tenUnit_window[OF assms(1) u10, of t k] that by (simp add: Let_def)
  show ?thesis using a b c by blast
qed

theorem concrete_ten_unit_windows_witness:
  "getWindowForShard (tenUnitUpdater Hour) zeroTime 3 = Some (6 * Hour, 8 * Hour) \<and>
   getWindowForShard (tenUnitUpdater Hour) (11 * Hour) 0 = Some (10 * Hour, 12 * Hour) \<and>
   getWindowForShard (tenUnitUpdater Hour) (13 * Hour) 0 = Some (20 * Hour, 22 * Hour)"
proof -
  have h: "0 < Hour" "11 * Hour \<le> maxDuration" by (simp_all add: Hour_def maxDuration_def)
  have t: "0 \<le> 13 * Hour \<and> 13 * Hour \<le> maxDuration \<and> (0::int) \<le> 0 \<and> (0::int) < 5"
    by (simp add: Hour_def maxDuration_def)
  note w = concrete_ten_unit_windows[OF h]
  have 1: "getWindowForShard (tenUnitUpdater Hour) zeroTime 3 = Some (6 * Hour, 8 * Hour)"
    using w[THEN conjunct1, rule_format, of 3] by simp
  have 2: "getWindowForShard (tenUnitUpdater Hour) (11 * Hour) 0 = Some (10 * Hour, 12 * Hour)"
    using w[THEN conjunct2, THEN conjunct1, rule_format, of 0] by simp
  have 3: "getWindowForShard (tenUnitUpdater Hour) (13 * Hour) 0 = Some (20 * Hour, 22 * Hour)"
    using w[THEN conjunct2, THEN conjunct2, rule_format, OF t] by (simp add: Hour_def Let_def)
  show ?thesis using 1 2 3 by simp
qed

section \<open>Construction (claim C7)\<close>

text \<open>
  C7. \<^verbatim>\<open>NewUpdater\<close> returns an error, and no updater, exactly when the number of
  shards is below 1, or the update period is at least 7 days, or the window
  \<^verbatim>\<open>lookbackPeriod + lookforwardPeriod\<close>, in nanoseconds, is not a multiple of the
  number of shards. For every other input it returns an updater that holds the
  parameters as given and an issuer map with one entry per name ID of the list (an
  empty list gives an empty map), each entry a certificate of the list with that name
  ID. The window is the \<^verbatim>\<open>Duration\<close> sum that the code computes; it is the
  mathematical sum whenever that fits a \<^verbatim>\<open>Duration\<close>.
\<close>

theorem NewUpdater_rejects_exactly:
  "((\<exists>err. NewUpdater issuerList n lb lf up = Inl err)
      = (n < 1 \<or> 7 * 24 * Hour \<le> up \<or> \<not> n dvd dur_add lb lf)) \<and>
   (\<forall>cu. NewUpdater issuerList n lb lf up = Inr cu \<longrightarrow>
      numShards cu = n \<and> lookbackPeriod cu = lb \<and> lookforwardPeriod cu = lf \<and>
      updatePeriod cu = up \<and> dom (issuers cu) = NameID ` set issuerList \<and>
      (\<forall>nameID c. issuers cu nameID = Some c \<longrightarrow> c \<in> set issuerList \<and> NameID c = nameID)) \<and>
   (minDuration \<le> lb + lf \<and> lb + lf \<le> maxDuration \<longrightarrow> dur_add lb lf = lb + lf)"
proof (intro conjI allI impI)
  show "(\<exists>err. NewUpdater issuerList n lb lf up = Inl err)
          = (n < 1 \<or> 7 * 24 * Hour \<le> up \<or> \<not> n dvd dur_add lb lf)"
    by (rule NewUpdater_Inl_iff)
next
  fix cu assume a: "NewUpdater issuerList n lb lf up = Inr cu"
  note cu = NewUpdater_Inr[OF a]
  show "numShards cu = n" "lookbackPeriod cu = lb" "lookforwardPeriod cu = lf" "updatePeriod cu = up"
    by (simp_all add: cu)
  show "dom (issuers cu) = NameID ` set issuerList"
    by (simp add: cu issuersByNameID_dom)
  fix nameID c assume "issuers cu nameID = Some c"
  then have "foldl (\<lambda>m issuer. m(NameID issuer \<mapsto> issuer)) Map.empty issuerList nameID = Some c"
    by (simp add: cu)
  from issuersByNameID_lookup[OF this]
  show "c \<in> set issuerList" "NameID c = nameID" by simp_all
next
  assume "minDuration \<le> lb + lf \<and> lb + lf \<le> maxDuration"
  then show "dur_add lb lf = lb + lf"
    by (simp add: dur_add_def i64_id minDuration_def maxDuration_def)
qed

theorem NewUpdater_rejects_exactly_witness:
  "\<not> ((5::int) < 1 \<or> 7 * 24 * Hour \<le> Hour \<or> \<not> 5 dvd dur_add 0 10) \<and>
   (\<exists>cu. NewUpdater [issuerA, issuerB, issuerA\<lparr>CommonName := ''Issuer A (renewed)''\<rparr>] 5 0 10 Hour
            = Inr cu \<and>
         numShards cu = 5 \<and> dom (issuers cu) = {1, 2})"
proof -
  define certs where "certs = [issuerA, issuerB, issuerA\<lparr>CommonName := ''Issuer A (renewed)''\<rparr>]"
  have h: "\<not> ((5::int) < 1 \<or> 7 * 24 * Hour \<le> Hour \<or> \<not> 5 dvd dur_add 0 10)"
    by (simp add: Hour_def dur_add_def i64_def)
  note w = NewUpdater_rejects_exactly[of certs 5 0 10 Hour]
  have "\<not> (\<exists>err. NewUpdater certs 5 0 10 Hour = Inl err)"
    using w[THEN conjunct1] h by blast
  then obtain cu where cu: "NewUpdater certs 5 0 10 Hour = Inr cu"
    by (cases "NewUpdater certs 5 0 10 Hour") blast+
  have ids: "NameID ` set certs = {1, 2}"
    by (simp add: certs_def issuerA_def issuerB_def insert_commute)
  have "numShards cu = 5 \<and> dom (issuers cu) = NameID ` set certs"
    using w[THEN conjunct2, THEN conjunct1, rule_format, OF cu] by blast
  then have "numShards cu = 5 \<and> dom (issuers cu) = {1, 2}" by (simp only: ids)
  then show ?thesis using h cu unfolding certs_def by blast
qed

section \<open>The protocol of a successful shard (claim C8)\<close>

text \<open>
  C8. For every shard that \<^verbatim>\<open>tickIssuer\<close> processed without failure, the events are
  exactly: the data-source request with the issuer, the bounds of the shard's window as
  \<^verbatim>\<open>ExpiresAfter\<close> and \<^verbatim>\<open>ExpiresBefore\<close> and the reference time as
  \<^verbatim>\<open>RevokedBefore\<close> (each as \<^verbatim>\<open>UnixNano\<close>); the opening of the generation stream;
  one metadata message with the issuer and the reference time; one entry message for
  every record of the data-source stream, in the order received; then the parse of the
  concatenation of all output chunks in the order received, the signature check of the
  parsed CRL, and the debug line.
\<close>

theorem successful_shard_protocol:
  assumes r: "tickIssuer cu env atTime nameID = Some r"
    and run: "(k, evs) \<in> set (shard_runs r)"
    and good: "\<forall>stg err. returned r \<noteq> Some (ShardError stg k err)"
  shows "\<exists>issuer shardStart shardEnd crl.
           issuers cu nameID = Some issuer \<and>
           getWindowForShard cu atTime k = Some (shardStart, shardEnd) \<and>
           ParseDERCRL env (concat (caStream_chunks (shard_script env nameID k))) = Inr crl \<and>
           evs = [SA_GetRevokedCerts
                    \<lparr>IssuerNameID = nameID, ExpiresAfter = UnixNano shardStart,
                     ExpiresBefore = UnixNano shardEnd, RevokedBefore = UnixNano atTime\<rparr>,
                  CA_GenerateCRL,
                  CA_Send (Metadata nameID (UnixNano atTime))]
                 @ map (\<lambda>entry. CA_Send (Entry entry))
                     (saStream_entries (shard_script env nameID k))
                 @ [X509_ParseDERCRL (concat (caStream_chunks (shard_script env nameID k))),
                    Issuer_CheckCRLSignature nameID crl,
                    Log_Debugf (CommonName issuer) k (RevokedCertificates crl)]"
proof -
  from r obtain issuer runs err where
    i: "issuers cu nameID = Some issuer"
    and sh: "tickShards cu env atTime nameID issuer 0 = Some (runs, err)"
    and rr: "shard_runs r = runs" "returned r = err"
    by (auto simp add: tickIssuer_def split: option.splits)
  have "processShard cu env atTime nameID issuer k = Some (evs, None)"
    using tickShards_member[OF sh, of k evs] run good rr by auto
  from processShard_success[OF this] i show ?thesis by blast
qed

theorem successful_shard_protocol_witness:
  "\<exists>r evs. tickIssuer threeShardUpdater brokenRead date2022 2 = Some r \<and>
           (0, evs) \<in> set (shard_runs r) \<and>
           (\<forall>stg err. returned r \<noteq> Some (ShardError stg 0 err)) \<and>
           evs = [SA_GetRevokedCerts
                    \<lparr>IssuerNameID = 2, ExpiresAfter = 1640995200000000002,
                     ExpiresBefore = 1640995200000000005,
                     RevokedBefore = 1640995200000000000\<rparr>,
                  CA_GenerateCRL,
                  CA_Send (Metadata 2 1640995200000000000),
                  CA_Send (Entry entry2), CA_Send (Entry entry3),
                  X509_ParseDERCRL emptyCRLBytes,
                  Issuer_CheckCRLSignature 2 \<lparr>SignedBy = 0, RevokedCertificates = 0\<rparr>,
                  Log_Debugf ''Issuer B'' 0 0]"
proof -
  obtain r where r: "tickIssuer threeShardUpdater brokenRead date2022 2 = Some r"
    using tickIssuer_total[of threeShardUpdater 2 brokenRead date2022]
    by (auto simp add: window_config_ok_def threeShardUpdater_def maxDuration_def)
  have ret: "map_option returned (tickIssuer threeShardUpdater brokenRead date2022 2) = Some None"
    by code_simp
  have "map_option (\<lambda>r. map fst (shard_runs r))
          (tickIssuer threeShardUpdater brokenRead date2022 2) = Some [0, 1, 2]"
    by code_simp
  then have "0 \<in> fst ` set (shard_runs r)" using r by (simp flip: set_map)
  then obtain evs where run: "(0, evs) \<in> set (shard_runs r)" by auto
  have good: "\<forall>stg err. returned r \<noteq> Some (ShardError stg 0 err)" using ret r by simp
  from successful_shard_protocol[OF r run good]
  obtain issuer shardStart shardEnd crl where
    i: "issuers threeShardUpdater 2 = Some issuer"
    and w: "getWindowForShard threeShardUpdater date2022 0 = Some (shardStart, shardEnd)"
    and p: "ParseDERCRL brokenRead (concat (caStream_chunks (shard_script brokenRead 2 0))) = Inr crl"
    and e: "evs = [SA_GetRevokedCerts
                    \<lparr>IssuerNameID = 2, ExpiresAfter = UnixNano shardStart,
                     ExpiresBefore = UnixNano shardEnd, RevokedBefore = UnixNano date2022\<rparr>,
                  CA_GenerateCRL,
                  CA_Send (Metadata 2 (UnixNano date2022))]
                 @ map (\<lambda>entry. CA_Send (Entry entry))
                     (saStream_entries (shard_script brokenRead 2 0))
                 @ [X509_ParseDERCRL (concat (caStream_chunks (shard_script brokenRead 2 0))),
                    Issuer_CheckCRLSignature 2 crl,
                    Log_Debugf (CommonName issuer) 0 (RevokedCertificates crl)]"
    by blast
  have i': "issuer = issuerB" using i by (simp add: threeShardUpdater_def)
  have w': "getWindowForShard threeShardUpdater date2022 0
              = Some (date2022 + 2, date2022 + 5)"
    by (simp add: threeShardUpdater_def getWindowForShard_def go_rem_def go_quo_def i64_def
        dur_add_def dur_neg_def Time_Sub_def Time_Add_def Time_Before_def zeroTime_def
        maxDuration_def minDuration_def signed_modulo_int_def signed_divide_int_def
        date2022_def unixEpoch_def)
  have p': "crl = \<lparr>SignedBy = 0, RevokedCertificates = 0\<rparr>"
    using p by (simp add: brokenRead_def quietShard_def emptyCRLBytes_def)
  have "evs = [SA_GetRevokedCerts
                    \<lparr>IssuerNameID = 2, ExpiresAfter = 1640995200000000002,
                     ExpiresBefore = 1640995200000000005,
                     RevokedBefore = 1640995200000000000\<rparr>,
                  CA_GenerateCRL,
                  CA_Send (Metadata 2 1640995200000000000),
                  CA_Send (Entry entry2), CA_Send (Entry entry3),
                  X509_ParseDERCRL emptyCRLBytes,
                  Issuer_CheckCRLSignature 2 \<lparr>SignedBy = 0, RevokedCertificates = 0\<rparr>,
                  Log_Debugf ''Issuer B'' 0 0]"
    using e w w' unfolding i' p'
    by (simp add: brokenRead_def quietShard_def issuerB_def UnixNano_def i64_def
        date2022_def unixEpoch_def)
  then show ?thesis using r run good by blast
qed

section \<open>Shard ID normalization (claim C9)\<close>

text \<open>
  C9 says that any shard ID, negative ones included, gives the interval of its residue
  in \<open>[0, numShards)\<close>; the source's comment says the first statement ensures "that
  the given shardID falls within the space of acceptable IDs". Go's \<^verbatim>\<open>%\<close> keeps the
  sign of the dividend: with five shards, shard ID \<open>-1\<close> stays \<open>-1\<close>, and at the zero time
  the function returns \<open>[-2,0)\<close>, not the \<open>[8,10)\<close> of shard 4.
\<close>

theorem negative_shard_id_not_normalized:
  "getWindowForShard (tenUnitUpdater 1) zeroTime (- 1) = Some (- 2, 0) \<and>
   (- 1 :: int) mod 5 = 4 \<and>
   getWindowForShard (tenUnitUpdater 1) zeroTime 4 = Some (8, 10)"
  by (simp add: window_eval)

section \<open>The chunk grid (claim C10)\<close>

text \<open>
  C10 says that every returned interval is one shard width long and starts on the grid
  anchored at the zero time: \<open>start - zero\<close> is congruent to \<open>shardID * shardWidth\<close>
  modulo the window width. The source's comment promises the same: "the boundaries of
  each chunk remain stable". \<^verbatim>\<open>atTime.Sub(time.Time{})\<close> saturates at the largest
  \<^verbatim>\<open>Duration\<close> (about 292 years), so for every date after the year 293 the offset is
  the same number and the boundaries move with the clock. With five shards, no lookback
  and a lookforward period of 10ns, on January 1, 2022 shard 0 starts 3ns after the
  reference time, off the grid, and one nanosecond later it starts one nanosecond later.
\<close>

theorem boundaries_follow_the_clock_in_2022:
  "getWindowForShard (tenUnitUpdater 1) date2022 0 = Some (date2022 + 3, date2022 + 5) \<and>
   (date2022 + 3 - zeroTime) mod 10 \<noteq> (0 * 2) mod 10 \<and>
   getWindowForShard (tenUnitUpdater 1) (date2022 + 1) 0 = Some (date2022 + 4, date2022 + 6)"
  by (simp add: window_eval date2022_def unixEpoch_def)

end
